theory Spec2Isabelle
  imports Main
begin

section \<open>The values that cross the foreign-function boundary\<close>

text \<open>
  \<^verbatim>\<open>block_manager.py\<close> is a thin layer over a native library reached through
  \<^verbatim>\<open>ctypes\<close>. A Python \<^verbatim>\<open>bytes\<close> value is a list of characters; a Python
  \<^verbatim>\<open>str\<close> is represented by its UTF-8 bytes, so that \<^verbatim>\<open>s.encode()\<close> is the
  identity on the representation. A \<^verbatim>\<open>c_void_p\<close> is an address, \<open>0\<close> being the
  null pointer (the only pointer that is false in a Python condition). A pointer to
  \<^verbatim>\<open>c_uint8\<close> is represented by the buffer it points to, \<open>None\<close> being the null
  pointer. Lengths are natural numbers: \<^verbatim>\<open>len\<close> of a Python sequence is below
  \<open>2^63\<close>, so \<^verbatim>\<open>c_size_t\<close> never wraps on them.
\<close>

type_synonym bytes = string

type_synonym c_void_p = nat

definition encode :: "string \<Rightarrow> bytes" where
  "encode s = s"

text \<open>The \<^verbatim>\<open>ctypes.Structure\<close> \<^verbatim>\<open>_PutEntry\<close> and its static method \<^verbatim>\<open>new\<close>.\<close>

record PutEntry =
  block_bytes :: bytes
  block_bytes_len :: nat

definition PutEntry_new :: "bytes \<Rightarrow> PutEntry" where
  "PutEntry_new bs = \<lparr>block_bytes = bs, block_bytes_len = length bs\<rparr>"

text \<open>
  A cell is a \<^verbatim>\<open>ctypes\<close> object handed to the native side with \<^verbatim>\<open>byref\<close>, which the
  native side may overwrite. An argument is passed by value, or is such a cell. An array
  element is \<open>None\<close> while it still holds the null pointer it was created with.
\<close>

datatype cell =
    C_void_p c_void_p
  | C_bool bool
  | C_size_t nat
  | C_uint8_p "bytes option"

datatype 'o c_arg =
    Arg_void_p c_void_p
  | Arg_char_p bytes
  | Arg_size_t nat
  | Arg_py_object 'o
  | Arg_put_items "PutEntry option list"
  | Arg_char_p_array "bytes option list"
  | Byref cell

text \<open>
  A native library (\<^verbatim>\<open>ffi.LIBRARY\<close>, \<^verbatim>\<open>ffi.PY_LIBRARY\<close>) is not part of the file: it is a
  parameter. Its \<^verbatim>\<open>call(name, *args)\<close> runs on the native state \<open>'n\<close> and gives the
  integer result, the contents of the \<^verbatim>\<open>byref\<close> cells after the call (in argument
  order) and the new native state. The world also keeps the list of the native calls
  made so far, so that "calls into the native library" is a statement about the model.
\<close>

type_synonym ('n, 'o) library = "'n \<Rightarrow> string \<Rightarrow> 'o c_arg list \<Rightarrow> int \<times> cell list \<times> 'n"

record ('n, 'o) world =
  native :: 'n
  calls :: "(string \<times> 'o c_arg list) list"

definition call :: "('n, 'o) library \<Rightarrow> string \<Rightarrow> 'o c_arg list \<Rightarrow> ('n, 'o) world
    \<Rightarrow> int \<times> cell list \<times> ('n, 'o) world" where
  "call library nm args w =
     (case library (native w) nm args of
        (res, cells, n') \<Rightarrow> (res, cells, \<lparr>native = n', calls = calls w @ [(nm, args)]\<rparr>))"

text \<open>
  The collaborators of \<^verbatim>\<open>block_manager.py\<close> that are not in the file, as one record of
  parameters: the two libraries and the vector helpers of \<^verbatim>\<open>sawtooth_validator.ffi\<close>,
  and the codec of \<^verbatim>\<open>block_pb2.Block\<close> (\<open>'b\<close> is the type of blocks;
  \<^verbatim>\<open>ParseFromString\<close> gives \<open>None\<close> where the codec raises its \<^verbatim>\<open>DecodeError\<close>).
\<close>

record ('n, 'o, 'b) env =
  LIBRARY :: "('n, 'o) library"
  PY_LIBRARY :: "('n, 'o) library"
  prepare_vec_result :: "bytes option \<times> nat \<times> nat"
  from_rust_vec :: "bytes option \<Rightarrow> nat \<Rightarrow> nat \<Rightarrow> bytes"
  SerializeToString :: "'b \<Rightarrow> bytes"
  ParseFromString :: "bytes \<Rightarrow> 'b option"

section \<open>Error codes and raised conditions\<close>

text \<open>The members of the \<^verbatim>\<open>IntEnum\<close> \<^verbatim>\<open>ErrorCode\<close>.\<close>

definition ErrorCode_Success :: int where
  "ErrorCode_Success = 0"

definition ErrorCode_NullPointerProvided :: int where
  "ErrorCode_NullPointerProvided = 0x01"

definition ErrorCode_MissingPredecessor :: int where
  "ErrorCode_MissingPredecessor = 0x02"

definition ErrorCode_MissingPredecessorInBranch :: int where
  "ErrorCode_MissingPredecessorInBranch = 0x03"

definition ErrorCode_MissingInput :: int where
  "ErrorCode_MissingInput = 0x04"

definition ErrorCode_UnknownBlock :: int where
  "ErrorCode_UnknownBlock = 0x05"

definition ErrorCode_InvalidInputString :: int where
  "ErrorCode_InvalidInputString = 0x06"

definition ErrorCode_Error :: int where
  "ErrorCode_Error = 0x07"

definition ErrorCode_InvalidPythonObject :: int where
  "ErrorCode_InvalidPythonObject = 0x0F"

definition ErrorCode_StopIteration :: int where
  "ErrorCode_StopIteration = 0x11"

text \<open>
  The conditions the file raises: its four exception classes, the built-in classes it
  uses, each with its message, and the codec's \<^verbatim>\<open>DecodeError\<close>.
\<close>

datatype exn =
    MissingPredecessor string
  | MissingPredecessorInBranch string
  | MissingInput string
  | UnknownBlock string
  | TypeError string
  | StopIteration
  | Exception string
  | DecodeError

fun exn_class :: "exn \<Rightarrow> string" where
  "exn_class (MissingPredecessor m) = ''MissingPredecessor''"
| "exn_class (MissingPredecessorInBranch m) = ''MissingPredecessorInBranch''"
| "exn_class (MissingInput m) = ''MissingInput''"
| "exn_class (UnknownBlock m) = ''UnknownBlock''"
| "exn_class (TypeError m) = ''TypeError''"
| "exn_class StopIteration = ''StopIteration''"
| "exn_class (Exception m) = ''Exception''"
| "exn_class DecodeError = ''DecodeError''"

text \<open>\<^verbatim>\<open>"{}".format(res)\<close> for an integer: its decimal digits, with a sign.\<close>

fun digits :: "nat \<Rightarrow> string" where
  "digits n = (if n < 10 then [char_of (48 + n)] else digits (n div 10) @ [char_of (48 + n mod 10)])"

definition format_int :: "int \<Rightarrow> string" where
  "format_int i = (if i < 0 then CHR ''-'' # digits (nat (- i)) else digits (nat i))"

text \<open>
  \<^verbatim>\<open>_exec(library, name, *args)\<close>: the call, then the chain of comparisons on its
  result, in the order of the source (\<open>exec_result\<close>: \<open>Inr ()\<close> is the plain
  \<^verbatim>\<open>return\<close>). The cells are returned with the outcome: the native side has written
  them whether or not the wrapper raises.
\<close>

definition exec_result :: "int \<Rightarrow> exn + unit" where
  "exec_result res =
     (if res = ErrorCode_Success then Inr ()
      else if res = ErrorCode_NullPointerProvided then Inl (TypeError ''Provided null pointer(s)'')
      else if res = ErrorCode_StopIteration then Inl StopIteration
      else if res = ErrorCode_MissingPredecessor then Inl (MissingPredecessor ''Missing predecessor'')
      else if res = ErrorCode_MissingPredecessorInBranch
        then Inl (MissingPredecessorInBranch ''Missing predecessor'')
      else if res = ErrorCode_MissingInput then Inl (MissingInput ''Missing input to put method'')
      else if res = ErrorCode_UnknownBlock then Inl (UnknownBlock ''Block was unknown'')
      else if res = ErrorCode_InvalidInputString
        then Inl (TypeError ''Invalid block store name provided'')
      else Inl (Exception (''There was an unknown error: '' @ format_int res)))"

definition exec :: "('n, 'o) library \<Rightarrow> string \<Rightarrow> 'o c_arg list \<Rightarrow> ('n, 'o) world
    \<Rightarrow> (exn + unit) \<times> cell list \<times> ('n, 'o) world" where
  "exec library nm args w =
     (case call library nm args w of (res, cells, w') \<Rightarrow> (exec_result res, cells, w'))"

definition libexec :: "('n, 'o, 'b) env \<Rightarrow> string \<Rightarrow> 'o c_arg list \<Rightarrow> ('n, 'o) world
    \<Rightarrow> (exn + unit) \<times> cell list \<times> ('n, 'o) world" where
  "libexec env nm args w = exec (LIBRARY env) nm args w"

definition pylibexec :: "('n, 'o, 'b) env \<Rightarrow> string \<Rightarrow> 'o c_arg list \<Rightarrow> ('n, 'o) world
    \<Rightarrow> (exn + unit) \<times> cell list \<times> ('n, 'o) world" where
  "pylibexec env nm args w = exec (PY_LIBRARY env) nm args w"

declare digits.simps [simp del]

section \<open>BlockManager\<close>

text \<open>
  The object holds the native manager's pointer (\<^verbatim>\<open>self.pointer\<close>, from the base class
  \<^verbatim>\<open>OwnedPointer\<close>). Each method gives the raised condition or the returned value, and
  the world after it.
\<close>

record BlockManager =
  pointer :: c_void_p

definition add_store :: "('n, 'o, 'b) env \<Rightarrow> BlockManager \<Rightarrow> string \<Rightarrow> 'o \<Rightarrow> ('n, 'o) world
    \<Rightarrow> (exn + unit) \<times> ('n, 'o) world" where
  "add_store env self name' block_store w =
     (case pylibexec env ''block_manager_add_store''
             [Arg_void_p (pointer self), Arg_char_p (encode name'), Arg_py_object block_store] w of
        (r, cells, w') \<Rightarrow> (r, w'))"

text \<open>
  The loop of \<^verbatim>\<open>put\<close>: the array is created with \<open>len(branch)\<close> null pointers and
  \<^verbatim>\<open>c_put_items[i]\<close> is assigned for every \<open>(i, block)\<close> of \<^verbatim>\<open>enumerate(branch)\<close>.
\<close>

definition c_put_items :: "('n, 'o, 'b) env \<Rightarrow> 'b list \<Rightarrow> PutEntry option list" where
  "c_put_items env branch' =
     foldl (\<lambda>items (i, block). items[i := Some (PutEntry_new (SerializeToString env block))])
       (replicate (length branch') None) (enumerate 0 branch')"

definition put :: "('n, 'o, 'b) env \<Rightarrow> BlockManager \<Rightarrow> 'b list \<Rightarrow> ('n, 'o) world
    \<Rightarrow> (exn + unit) \<times> ('n, 'o) world" where
  "put env self branch' w =
     (case libexec env ''block_manager_put''
             [Arg_void_p (pointer self), Arg_put_items (c_put_items env branch'),
              Arg_size_t (length branch')] w of
        (r, cells, w') \<Rightarrow> (r, w'))"

definition ref_block :: "('n, 'o, 'b) env \<Rightarrow> BlockManager \<Rightarrow> string \<Rightarrow> ('n, 'o) world
    \<Rightarrow> (exn + unit) \<times> ('n, 'o) world" where
  "ref_block env self block_id w =
     (case libexec env ''block_manager_ref_block''
             [Arg_void_p (pointer self), Arg_char_p (encode block_id)] w of
        (r, cells, w') \<Rightarrow> (r, w'))"

definition unref_block :: "('n, 'o, 'b) env \<Rightarrow> BlockManager \<Rightarrow> string \<Rightarrow> ('n, 'o) world
    \<Rightarrow> (exn + unit) \<times> ('n, 'o) world" where
  "unref_block env self block_id w =
     (case libexec env ''block_manager_unref_block''
             [Arg_void_p (pointer self), Arg_char_p (encode block_id)] w of
        (r, cells, w') \<Rightarrow> (r, w'))"

definition persist :: "('n, 'o, 'b) env \<Rightarrow> BlockManager \<Rightarrow> string \<Rightarrow> string \<Rightarrow> ('n, 'o) world
    \<Rightarrow> (exn + unit) \<times> ('n, 'o) world" where
  "persist env self block_id store_name w =
     (case libexec env ''block_manager_persist''
             [Arg_void_p (pointer self), Arg_char_p (encode block_id),
              Arg_char_p (encode store_name)] w of
        (r, cells, w') \<Rightarrow> (r, w'))"

text \<open>
  \<^verbatim>\<open>__contains__\<close> returns the \<^verbatim>\<open>c_bool\<close> it created with \<^verbatim>\<open>False\<close> and passed by
  reference: its content is what the native side left in it.
\<close>

definition contains :: "('n, 'o, 'b) env \<Rightarrow> BlockManager \<Rightarrow> string \<Rightarrow> ('n, 'o) world
    \<Rightarrow> (exn + bool) \<times> ('n, 'o) world" where
  "contains env self block_id w =
     (case libexec env ''block_manager_contains''
             [Arg_void_p (pointer self), Arg_char_p (encode block_id), Byref (C_bool False)] w of
        (Inl e, cells, w') \<Rightarrow> (Inl e, w')
      | (Inr u, cells, w') \<Rightarrow> (Inr (case cells of [C_bool b] \<Rightarrow> b | _ \<Rightarrow> False), w'))"

section \<open>The traversal iterators\<close>

text \<open>
  An iterator object has the class attribute \<^verbatim>\<open>name\<close> and the native cursor's pointer
  \<^verbatim>\<open>_c_iter_ptr\<close>. A constructor sets the pointer to null, passes it by reference to
  the native \<^verbatim>\<open>_new\<close>, and may raise: it gives the outcome together with the object as
  it leaves it, since a destructor runs on that object too.
\<close>

record BlockIterator =
  name :: string
  c_iter_ptr :: c_void_p

definition c_block_ids :: "string list \<Rightarrow> bytes option list" where
  "c_block_ids block_ids =
     foldl (\<lambda>arr (i, block_id). arr[i := Some (encode block_id)])
       (replicate (length block_ids) None) (enumerate 0 block_ids)"

definition GetBlockIterator_init :: "('n, 'o, 'b) env \<Rightarrow> c_void_p \<Rightarrow> string list \<Rightarrow> ('n, 'o) world
    \<Rightarrow> (exn + unit) \<times> BlockIterator \<times> ('n, 'o) world" where
  "GetBlockIterator_init env block_manager_ptr block_ids w =
     (case libexec env (''block_manager_get_iterator'' @ ''_new'')
             [Arg_void_p block_manager_ptr, Arg_char_p_array (c_block_ids block_ids),
              Arg_size_t (length block_ids), Byref (C_void_p 0)] w of
        (r, cells, w') \<Rightarrow>
          (r, \<lparr>name = ''block_manager_get_iterator'',
               c_iter_ptr = (case cells of [C_void_p p] \<Rightarrow> p | _ \<Rightarrow> 0)\<rparr>, w'))"

definition BranchDiffIterator_init :: "('n, 'o, 'b) env \<Rightarrow> c_void_p \<Rightarrow> string \<Rightarrow> string
    \<Rightarrow> ('n, 'o) world \<Rightarrow> (exn + unit) \<times> BlockIterator \<times> ('n, 'o) world" where
  "BranchDiffIterator_init env block_manager_ptr tip exclude w =
     (case libexec env (''block_manager_branch_diff_iterator'' @ ''_new'')
             [Arg_void_p block_manager_ptr, Arg_char_p (encode tip), Arg_char_p (encode exclude),
              Byref (C_void_p 0)] w of
        (r, cells, w') \<Rightarrow>
          (r, \<lparr>name = ''block_manager_branch_diff_iterator'',
               c_iter_ptr = (case cells of [C_void_p p] \<Rightarrow> p | _ \<Rightarrow> 0)\<rparr>, w'))"

definition BranchIterator_init :: "('n, 'o, 'b) env \<Rightarrow> c_void_p \<Rightarrow> string \<Rightarrow> ('n, 'o) world
    \<Rightarrow> (exn + unit) \<times> BlockIterator \<times> ('n, 'o) world" where
  "BranchIterator_init env block_manager_ptr tip w =
     (case libexec env (''block_manager_branch_iterator'' @ ''_new'')
             [Arg_void_p block_manager_ptr, Arg_char_p (encode tip), Byref (C_void_p 0)] w of
        (r, cells, w') \<Rightarrow>
          (r, \<lparr>name = ''block_manager_branch_iterator'',
               c_iter_ptr = (case cells of [C_void_p p] \<Rightarrow> p | _ \<Rightarrow> 0)\<rparr>, w'))"

text \<open>
  \<^verbatim>\<open>get\<close>, \<^verbatim>\<open>branch\<close> and \<^verbatim>\<open>branch_diff\<close> return the constructed object; when the
  constructor raises, the caller gets the condition and no object.
\<close>

definition constructed :: "(exn + unit) \<times> BlockIterator \<times> ('n, 'o) world
    \<Rightarrow> (exn + BlockIterator) \<times> ('n, 'o) world" where
  "constructed r = (case r of (Inl e, it, w') \<Rightarrow> (Inl e, w') | (Inr u, it, w') \<Rightarrow> (Inr it, w'))"

definition get :: "('n, 'o, 'b) env \<Rightarrow> BlockManager \<Rightarrow> string list \<Rightarrow> ('n, 'o) world
    \<Rightarrow> (exn + BlockIterator) \<times> ('n, 'o) world" where
  "get env self block_ids w = constructed (GetBlockIterator_init env (pointer self) block_ids w)"

definition branch :: "('n, 'o, 'b) env \<Rightarrow> BlockManager \<Rightarrow> string \<Rightarrow> ('n, 'o) world
    \<Rightarrow> (exn + BlockIterator) \<times> ('n, 'o) world" where
  "branch env self tip w = constructed (BranchIterator_init env (pointer self) tip w)"

definition branch_diff :: "('n, 'o, 'b) env \<Rightarrow> BlockManager \<Rightarrow> string \<Rightarrow> string \<Rightarrow> ('n, 'o) world
    \<Rightarrow> (exn + BlockIterator) \<times> ('n, 'o) world" where
  "branch_diff env self tip exclude w =
     constructed (BranchDiffIterator_init env (pointer self) tip exclude w)"

text \<open>The three methods of \<^verbatim>\<open>_BlockIterator\<close>.\<close>

definition BlockIterator_del :: "('n, 'o, 'b) env \<Rightarrow> BlockIterator \<Rightarrow> ('n, 'o) world
    \<Rightarrow> (exn + unit) \<times> ('n, 'o) world" where
  "BlockIterator_del env self w =
     (if c_iter_ptr self \<noteq> 0
      then (case libexec env (name self @ ''_drop'') [Arg_void_p (c_iter_ptr self)] w of
              (r, cells, w') \<Rightarrow> (r, w'))
      else (Inr (), w))"

definition BlockIterator_iter :: "BlockIterator \<Rightarrow> BlockIterator" where
  "BlockIterator_iter self = self"

definition vec_cells :: "cell list \<Rightarrow> bytes option \<times> nat \<times> nat \<Rightarrow> bytes option \<times> nat \<times> nat" where
  "vec_cells cells prepared =
     (case cells of [C_uint8_p p, C_size_t l, C_size_t c] \<Rightarrow> (p, l, c) | _ \<Rightarrow> prepared)"

definition BlockIterator_next :: "('n, 'o, 'b) env \<Rightarrow> BlockIterator \<Rightarrow> ('n, 'o) world
    \<Rightarrow> (exn + 'b) \<times> ('n, 'o) world" where
  "BlockIterator_next env self w =
     (if \<not> c_iter_ptr self \<noteq> 0 then (Inl StopIteration, w)
      else
        (case prepare_vec_result env of
           (vec_ptr, vec_len, vec_cap) \<Rightarrow>
             (case libexec env (name self @ ''_next'')
                     [Arg_void_p (c_iter_ptr self), Byref (C_uint8_p vec_ptr),
                      Byref (C_size_t vec_len), Byref (C_size_t vec_cap)] w of
                (Inl e, cells, w') \<Rightarrow> (Inl e, w')
              | (Inr u, cells, w') \<Rightarrow>
                  (case vec_cells cells (vec_ptr, vec_len, vec_cap) of
                     (vec_ptr', vec_len', vec_cap') \<Rightarrow>
                       (if vec_ptr' = None then (Inl StopIteration, w')
                        else
                          (case ParseFromString env (from_rust_vec env vec_ptr' vec_len' vec_cap') of
                             None \<Rightarrow> (Inl DecodeError, w')
                           | Some block \<Rightarrow> (Inr block, w')))))))"

section \<open>Observing a native call\<close>

text \<open>
  What the library answers to a call made in world \<open>w\<close>: its result code, the cells it
  leaves, and the world after the call. The argument list of a cursor's \<^verbatim>\<open>_next\<close> is
  the one \<^verbatim>\<open>__next__\<close> builds.
\<close>

definition result_code :: "('n, 'o) library \<Rightarrow> ('n, 'o) world \<Rightarrow> string \<Rightarrow> 'o c_arg list \<Rightarrow> int" where
  "result_code library w nm args = fst (library (native w) nm args)"

definition result_cells :: "('n, 'o) library \<Rightarrow> ('n, 'o) world \<Rightarrow> string \<Rightarrow> 'o c_arg list
    \<Rightarrow> cell list" where
  "result_cells library w nm args = fst (snd (library (native w) nm args))"

definition after_call :: "('n, 'o) library \<Rightarrow> ('n, 'o) world \<Rightarrow> string \<Rightarrow> 'o c_arg list
    \<Rightarrow> ('n, 'o) world" where
  "after_call library w nm args =
     \<lparr>native = snd (snd (library (native w) nm args)), calls = calls w @ [(nm, args)]\<rparr>"

definition next_args :: "('n, 'o, 'b) env \<Rightarrow> BlockIterator \<Rightarrow> 'o c_arg list" where
  "next_args env self =
     (case prepare_vec_result env of
        (vec_ptr, vec_len, vec_cap) \<Rightarrow>
          [Arg_void_p (c_iter_ptr self), Byref (C_uint8_p vec_ptr), Byref (C_size_t vec_len),
           Byref (C_size_t vec_cap)])"

text \<open>
  The vector a cursor's \<^verbatim>\<open>_next\<close> hands back in world \<open>w\<close>, and the payload
  \<^verbatim>\<open>from_rust_vec\<close> reads from it.
\<close>

definition next_vec :: "('n, 'o, 'b) env \<Rightarrow> BlockIterator \<Rightarrow> ('n, 'o) world \<Rightarrow> bytes option \<times> nat \<times> nat" where
  "next_vec env self w =
     vec_cells (result_cells (LIBRARY env) w (name self @ ''_next'') (next_args env self))
       (prepare_vec_result env)"

definition next_payload :: "('n, 'o, 'b) env \<Rightarrow> BlockIterator \<Rightarrow> ('n, 'o) world \<Rightarrow> bytes" where
  "next_payload env self w =
     (case next_vec env self w of (vec_ptr, vec_len, vec_cap) \<Rightarrow> from_rust_vec env vec_ptr vec_len vec_cap)"

text \<open>
  The native cursor fails in native state \<open>n\<close>: its \<^verbatim>\<open>_next\<close> answers a code other than
  Success, or leaves a null vector. It stays failed when every failing state is followed
  by a failing state.
\<close>

definition cursor_failed :: "('n, 'o, 'b) env \<Rightarrow> BlockIterator \<Rightarrow> 'n \<Rightarrow> bool" where
  "cursor_failed env self n =
     (case LIBRARY env n (name self @ ''_next'') (next_args env self) of
        (res, cells, n') \<Rightarrow>
          res \<noteq> ErrorCode_Success \<or> fst (vec_cells cells (prepare_vec_result env)) = None)"

definition stays_failed :: "('n, 'o, 'b) env \<Rightarrow> BlockIterator \<Rightarrow> bool" where
  "stays_failed env self =
     (\<forall>n. cursor_failed env self n \<longrightarrow>
        cursor_failed env self (snd (snd (LIBRARY env n (name self @ ''_next'') (next_args env self)))))"

text \<open>The world after \<open>k\<close> calls of \<^verbatim>\<open>__next__\<close> on the same iterator, whatever they gave.\<close>

fun after_nexts :: "('n, 'o, 'b) env \<Rightarrow> BlockIterator \<Rightarrow> nat \<Rightarrow> ('n, 'o) world \<Rightarrow> ('n, 'o) world" where
  "after_nexts env self 0 w = w"
| "after_nexts env self (Suc k) w = after_nexts env self k (snd (BlockIterator_next env self w))"

text \<open>
  A Python \<^verbatim>\<open>for\<close> loop over an object that is left after at most \<open>k\<close> elements: it
  takes \<^verbatim>\<open>iter(obj)\<close> once and calls \<^verbatim>\<open>__next__\<close> on the result until a condition is
  raised. It gives the blocks yielded, the condition that ended it (\<open>None\<close> when it was
  left after \<open>k\<close> elements) and the world.
\<close>

fun nexts :: "('n, 'o, 'b) env \<Rightarrow> BlockIterator \<Rightarrow> nat \<Rightarrow> ('n, 'o) world
    \<Rightarrow> 'b list \<times> exn option \<times> ('n, 'o) world" where
  "nexts env it 0 w = ([], None, w)"
| "nexts env it (Suc k) w =
     (case BlockIterator_next env it w of
        (Inl e, w') \<Rightarrow> ([], Some e, w')
      | (Inr b, w') \<Rightarrow> (case nexts env it k w' of (bs, stop, w'') \<Rightarrow> (b # bs, stop, w'')))"

definition for_loop :: "('n, 'o, 'b) env \<Rightarrow> BlockIterator \<Rightarrow> nat \<Rightarrow> ('n, 'o) world
    \<Rightarrow> 'b list \<times> exn option \<times> ('n, 'o) world" where
  "for_loop env obj k w = nexts env (BlockIterator_iter obj) k w"

section \<open>The conditions the claims name\<close>

text \<open>
  The class of the condition that the specification assigns to a result code other than
  Success, written from its words: MissingPredecessor for 0x02,
  MissingPredecessorInBranch for 0x03, MissingInput for 0x04, UnknownBlock for 0x05,
  StopIteration for 0x11, TypeError for 0x01 and 0x06, Exception for every other code.
\<close>

definition claimed_class :: "int \<Rightarrow> string" where
  "claimed_class res =
     (if res = 0x02 then ''MissingPredecessor''
      else if res = 0x03 then ''MissingPredecessorInBranch''
      else if res = 0x04 then ''MissingInput''
      else if res = 0x05 then ''UnknownBlock''
      else if res = 0x11 then ''StopIteration''
      else if res = 0x01 \<or> res = 0x06 then ''TypeError''
      else ''Exception'')"

text \<open>The class raised for a result code (\<open>None\<close> for the plain return).\<close>

definition raised_class :: "int \<Rightarrow> string option" where
  "raised_class res = (case exec_result res of Inl e \<Rightarrow> Some (exn_class e) | Inr u \<Rightarrow> None)"

section \<open>Concrete native libraries\<close>

text \<open>
  Two small native libraries on which the wrapper can be run. The scripted library
  answers each call with the next entry of its script (a result code and the cells it
  leaves), and with \<^verbatim>\<open>Error\<close> once the script is used up. The countdown library is a
  cursor over \<open>n\<close> remaining one-byte payloads: \<^verbatim>\<open>_next\<close> hands one out while some
  remain, and answers \<^verbatim>\<open>StopIteration\<close> with a null vector from then on. Their blocks are
  the payloads themselves.
\<close>

definition scripted :: "((int \<times> cell list) list, unit) library" where
  "scripted n nm args =
     (case n of [] \<Rightarrow> (ErrorCode_Error, [], []) | (res, cells) # script \<Rightarrow> (res, cells, script))"

definition countdown :: "(nat, unit) library" where
  "countdown n nm args =
     (if n = 0 then (ErrorCode_StopIteration, [C_uint8_p None, C_size_t 0, C_size_t 0], 0)
      else (ErrorCode_Success, [C_uint8_p (Some ''B''), C_size_t 1, C_size_t 1], n - 1))"

definition bytes_env :: "('n, unit) library \<Rightarrow> ('n, unit, bytes) env" where
  "bytes_env library =
     \<lparr>LIBRARY = library, PY_LIBRARY = library, prepare_vec_result = (None, 0, 0),
      from_rust_vec = (\<lambda>vec_ptr vec_len vec_cap. case vec_ptr of None \<Rightarrow> [] | Some buf \<Rightarrow> take vec_len buf),
      SerializeToString = (\<lambda>b. b), ParseFromString = Some\<rparr>"

definition start :: "'n \<Rightarrow> ('n, unit) world" where
  "start n = \<lparr>native = n, calls = []\<rparr>"

section \<open>The native engine, from the specification\<close>

text \<open>
  Modelled from the spec: the block type \<^verbatim>\<open>block_pb2.Block\<close> is not under src. The
  specification's data model gives a block its own id, its predecessor's id (or the
  distinguished "no predecessor" sentinel of a genesis block, here \<open>None\<close>) and an opaque
  payload.
\<close>

record Block =
  block_id :: string
  previous_block_id :: "string option"
  payload :: bytes

text \<open>
  Modelled from the spec: the native engine behind \<^verbatim>\<open>block_manager_put\<close> and
  \<^verbatim>\<open>block_manager_contains\<close> is not under src. Its state is the pool (block id to
  block and pin count) and the registered stores in registration order (name and the
  blocks held). An id resolves when it is in the pool or in any registered store.
\<close>

record engine =
  pool :: "string \<Rightarrow> (Block \<times> nat) option"
  stores :: "(string \<times> (string \<Rightarrow> Block option)) list"

definition resolves :: "engine \<Rightarrow> string \<Rightarrow> bool" where
  "resolves s i = (pool s i \<noteq> None \<or> list_ex (\<lambda>(nm, st). st i \<noteq> None) (stores s))"

text \<open>
  Modelled from the spec: contiguity of a branch (section 4.1 (b)): every block after
  the first has the id of the block immediately before it as its predecessor id.
\<close>

fun contiguous :: "Block list \<Rightarrow> bool" where
  "contiguous (a # b # rest) = (previous_block_id b = Some (block_id a) \<and> contiguous (b # rest))"
| "contiguous rest = True"

text \<open>
  Modelled from the spec: insertion of a validated branch into the pool; a new entry
  starts with pin count zero, an id the pool already holds keeps its entry.
\<close>

definition insert_block :: "(string \<Rightarrow> (Block \<times> nat) option) \<Rightarrow> Block \<Rightarrow> (string \<Rightarrow> (Block \<times> nat) option)" where
  "insert_block m b = (if m (block_id b) = None then m(block_id b \<mapsto> (b, 0)) else m)"

definition insert_blocks :: "Block list \<Rightarrow> (string \<Rightarrow> (Block \<times> nat) option)
    \<Rightarrow> (string \<Rightarrow> (Block \<times> nat) option)" where
  "insert_blocks blocks m = foldl insert_block m blocks"

text \<open>
  Modelled from the spec: \<^verbatim>\<open>put\<close> of section 4.1. It fails with MissingInput on the
  empty sequence; it validates, without changing the state, that the first block's
  predecessor resolves (a genesis block has none to resolve), else MissingPredecessor,
  and that the branch is contiguous, else MissingPredecessorInBranch; on success all
  blocks are inserted.
\<close>

definition engine_put :: "engine \<Rightarrow> Block list \<Rightarrow> int \<times> engine" where
  "engine_put s blocks =
     (case blocks of
        [] \<Rightarrow> (ErrorCode_MissingInput, s)
      | b # rest \<Rightarrow>
          if \<not> (case previous_block_id b of None \<Rightarrow> True | Some p \<Rightarrow> resolves s p)
            then (ErrorCode_MissingPredecessor, s)
          else if \<not> contiguous blocks then (ErrorCode_MissingPredecessorInBranch, s)
          else (ErrorCode_Success, s\<lparr>pool := insert_blocks blocks (pool s)\<rparr>))"

text \<open>
  Modelled from the spec: the engine re-derives each block from the payload of its entry
  with the codec (block id and predecessor id are fields of the payload); an entry that
  is a null pointer or does not parse is structurally invalid input (MissingInput).
\<close>

definition decode_entry :: "(bytes \<Rightarrow> Block option) \<Rightarrow> PutEntry option \<Rightarrow> Block option" where
  "decode_entry parse entry =
     (case entry of None \<Rightarrow> None | Some e \<Rightarrow> parse (take (block_bytes_len e) (block_bytes e)))"

definition decode_entries :: "(bytes \<Rightarrow> Block option) \<Rightarrow> PutEntry option list \<Rightarrow> Block list option" where
  "decode_entries parse entries = those (map (decode_entry parse) entries)"

text \<open>
  Modelled from the spec: the engine as a native library, for the two entry points
  above. \<^verbatim>\<open>block_manager_contains\<close> writes whether the id resolves, changes nothing and
  never fails. The other entry points of the engine (stores, pins, persistence, cursors)
  are outside this model; the library answers them, and a call with unexpected
  arguments, with \<^verbatim>\<open>Error\<close>.
\<close>

definition engine_library :: "(bytes \<Rightarrow> Block option) \<Rightarrow> (engine, 'o) library" where
  "engine_library parse s nm args =
     (if nm = ''block_manager_put'' then
        (case args of
           [Arg_void_p p, Arg_put_items entries, Arg_size_t n] \<Rightarrow>
             (case decode_entries parse (take n entries) of
                None \<Rightarrow> (ErrorCode_MissingInput, [], s)
              | Some blocks \<Rightarrow> (case engine_put s blocks of (res, s') \<Rightarrow> (res, [], s')))
         | _ \<Rightarrow> (ErrorCode_Error, [], s))
      else if nm = ''block_manager_contains'' then
        (case args of
           [Arg_void_p p, Arg_char_p i, Byref (C_bool b)] \<Rightarrow> (ErrorCode_Success, [C_bool (resolves s i)], s)
         | _ \<Rightarrow> (ErrorCode_Error, [], s))
      else (ErrorCode_Error, [], s))"

text \<open>
  A concrete codec and concrete blocks on which the engine can be run: a block is
  written as its id, a separator, its predecessor id (empty for a genesis block), a
  separator, and its payload. The ids used with it hold no separator and are not empty.
\<close>

definition first_field :: "bytes \<Rightarrow> bytes" where
  "first_field bs = takeWhile (\<lambda>c. c \<noteq> CHR '';'') bs"

definition rest_after :: "bytes \<Rightarrow> bytes" where
  "rest_after bs = drop 1 (dropWhile (\<lambda>c. c \<noteq> CHR '';'') bs)"

definition write_block :: "Block \<Rightarrow> bytes" where
  "write_block b =
     block_id b @ '';'' @ (case previous_block_id b of None \<Rightarrow> [] | Some p \<Rightarrow> p) @ '';'' @ payload b"

definition read_block :: "bytes \<Rightarrow> Block option" where
  "read_block bs =
     (if length (filter (\<lambda>c. c = CHR '';'') bs) < 2 then None
      else Some \<lparr>block_id = first_field bs,
                 previous_block_id = (if first_field (rest_after bs) = [] then None else Some (first_field (rest_after bs))),
                 payload = rest_after (rest_after bs)\<rparr>)"

definition engine_env :: "(engine, unit, Block) env" where
  "engine_env =
     \<lparr>LIBRARY = engine_library read_block, PY_LIBRARY = engine_library read_block,
      prepare_vec_result = (None, 0, 0),
      from_rust_vec = (\<lambda>vec_ptr vec_len vec_cap. case vec_ptr of None \<Rightarrow> [] | Some buf \<Rightarrow> take vec_len buf),
      SerializeToString = write_block, ParseFromString = read_block\<rparr>"

definition GENESIS :: Block where
  "GENESIS = \<lparr>block_id = ''G'', previous_block_id = None, payload = ''g''\<rparr>"

definition B1 :: Block where
  "B1 = \<lparr>block_id = ''B1'', previous_block_id = Some ''G'', payload = ''x''\<rparr>"

definition B2 :: Block where
  "B2 = \<lparr>block_id = ''B2'', previous_block_id = Some ''B1'', payload = ''y''\<rparr>"

definition B3 :: Block where
  "B3 = \<lparr>block_id = ''B3'', previous_block_id = Some ''B1'', payload = ''z''\<rparr>"

definition B4 :: Block where
  "B4 = \<lparr>block_id = ''B4'', previous_block_id = Some ''B2'', payload = ''t''\<rparr>"

definition empty_engine :: engine where
  "empty_engine = \<lparr>pool = (\<lambda>i. None), stores = []\<rparr>"

section \<open>What each operation of the wrapper does with the native answer\<close>

lemmas codes = ErrorCode_Success_def ErrorCode_NullPointerProvided_def ErrorCode_MissingPredecessor_def
  ErrorCode_MissingPredecessorInBranch_def ErrorCode_MissingInput_def ErrorCode_UnknownBlock_def
  ErrorCode_InvalidInputString_def ErrorCode_Error_def ErrorCode_InvalidPythonObject_def ErrorCode_StopIteration_def

lemma exec_eq:
  "exec library nm args w =
     (exec_result (result_code library w nm args), result_cells library w nm args,
      after_call library w nm args)"
  by (simp add: exec_def call_def result_code_def result_cells_def after_call_def split: prod.splits)

lemma exec_result_ok: "(exec_result res = Inr ()) = (res = ErrorCode_Success)"
  by (simp add: exec_result_def codes)

lemma exec_result_class:
  "res \<noteq> ErrorCode_Success \<Longrightarrow> \<exists>e. exec_result res = Inl e \<and> exn_class e = claimed_class res"
  by (simp add: exec_result_def claimed_class_def codes)

lemma add_store_eq:
  "add_store env self nm st w =
     (exec_result (result_code (PY_LIBRARY env) w ''block_manager_add_store''
        [Arg_void_p (pointer self), Arg_char_p (encode nm), Arg_py_object st]),
      after_call (PY_LIBRARY env) w ''block_manager_add_store''
        [Arg_void_p (pointer self), Arg_char_p (encode nm), Arg_py_object st])"
  by (simp add: add_store_def pylibexec_def exec_eq)

lemma put_eq:
  "put env self br w =
     (exec_result (result_code (LIBRARY env) w ''block_manager_put''
        [Arg_void_p (pointer self), Arg_put_items (c_put_items env br), Arg_size_t (length br)]),
      after_call (LIBRARY env) w ''block_manager_put''
        [Arg_void_p (pointer self), Arg_put_items (c_put_items env br), Arg_size_t (length br)])"
  by (simp add: put_def libexec_def exec_eq)

lemma ref_block_eq:
  "ref_block env self i w =
     (exec_result (result_code (LIBRARY env) w ''block_manager_ref_block''
        [Arg_void_p (pointer self), Arg_char_p (encode i)]),
      after_call (LIBRARY env) w ''block_manager_ref_block''
        [Arg_void_p (pointer self), Arg_char_p (encode i)])"
  by (simp add: ref_block_def libexec_def exec_eq)

lemma unref_block_eq:
  "unref_block env self i w =
     (exec_result (result_code (LIBRARY env) w ''block_manager_unref_block''
        [Arg_void_p (pointer self), Arg_char_p (encode i)]),
      after_call (LIBRARY env) w ''block_manager_unref_block''
        [Arg_void_p (pointer self), Arg_char_p (encode i)])"
  by (simp add: unref_block_def libexec_def exec_eq)

lemma persist_eq:
  "persist env self i sn w =
     (exec_result (result_code (LIBRARY env) w ''block_manager_persist''
        [Arg_void_p (pointer self), Arg_char_p (encode i), Arg_char_p (encode sn)]),
      after_call (LIBRARY env) w ''block_manager_persist''
        [Arg_void_p (pointer self), Arg_char_p (encode i), Arg_char_p (encode sn)])"
  by (simp add: persist_def libexec_def exec_eq)

lemma contains_eq:
  "contains env self i w =
     (case exec_result (result_code (LIBRARY env) w ''block_manager_contains''
        [Arg_void_p (pointer self), Arg_char_p (encode i), Byref (C_bool False)]) of
        Inl e \<Rightarrow> Inl e
      | Inr u \<Rightarrow> Inr (case result_cells (LIBRARY env) w ''block_manager_contains''
            [Arg_void_p (pointer self), Arg_char_p (encode i), Byref (C_bool False)] of
              [C_bool b] \<Rightarrow> b | _ \<Rightarrow> False),
      after_call (LIBRARY env) w ''block_manager_contains''
        [Arg_void_p (pointer self), Arg_char_p (encode i), Byref (C_bool False)])"
  by (simp add: contains_def libexec_def exec_eq split: sum.splits)

lemma contains_outcome:
  "map_sum id (\<lambda>b. ()) (fst (contains env self i w)) =
     exec_result (result_code (LIBRARY env) w ''block_manager_contains''
        [Arg_void_p (pointer self), Arg_char_p (encode i), Byref (C_bool False)])"
  by (simp add: contains_eq split: sum.splits)

lemma constructed_outcome: "map_sum id (\<lambda>it. ()) (fst (constructed (r, it, w))) = r"
  by (cases r) (simp_all add: constructed_def)

lemma get_outcome:
  "map_sum id (\<lambda>it. ()) (fst (get env self ids w)) =
     exec_result (result_code (LIBRARY env) w ''block_manager_get_iterator_new''
        [Arg_void_p (pointer self), Arg_char_p_array (c_block_ids ids), Arg_size_t (length ids),
         Byref (C_void_p 0)])"
  by (simp add: get_def GetBlockIterator_init_def libexec_def exec_eq constructed_outcome)

lemma branch_outcome:
  "map_sum id (\<lambda>it. ()) (fst (branch env self tip w)) =
     exec_result (result_code (LIBRARY env) w ''block_manager_branch_iterator_new''
        [Arg_void_p (pointer self), Arg_char_p (encode tip), Byref (C_void_p 0)])"
  by (simp add: branch_def BranchIterator_init_def libexec_def exec_eq constructed_outcome)

lemma branch_diff_outcome:
  "map_sum id (\<lambda>it. ()) (fst (branch_diff env self tip exclude w)) =
     exec_result (result_code (LIBRARY env) w ''block_manager_branch_diff_iterator_new''
        [Arg_void_p (pointer self), Arg_char_p (encode tip), Arg_char_p (encode exclude),
         Byref (C_void_p 0)])"
  by (simp add: branch_diff_def BranchDiffIterator_init_def libexec_def exec_eq constructed_outcome)

lemma next_null: "c_iter_ptr it = 0 \<Longrightarrow> BlockIterator_next env it w = (Inl StopIteration, w)"
  by (simp add: BlockIterator_next_def)

lemma next_eq:
  "c_iter_ptr it \<noteq> 0 \<Longrightarrow>
   BlockIterator_next env it w =
     (case exec_result (result_code (LIBRARY env) w (name it @ ''_next'') (next_args env it)) of
        Inl e \<Rightarrow> Inl e
      | Inr u \<Rightarrow>
          (if fst (next_vec env it w) = None then Inl StopIteration
           else case ParseFromString env (next_payload env it w) of
                  None \<Rightarrow> Inl DecodeError | Some b \<Rightarrow> Inr b),
      after_call (LIBRARY env) w (name it @ ''_next'') (next_args env it))"
  by (simp add: BlockIterator_next_def libexec_def exec_eq next_args_def next_vec_def next_payload_def
      split: sum.splits prod.splits option.splits)



lemma fill:
  "length acc = k + length xs \<Longrightarrow>
   foldl (\<lambda>items (i, x). items[i := Some (f x)]) acc (enumerate k xs) =
     take k acc @ map (\<lambda>x. Some (f x)) xs"
proof (induction xs arbitrary: k acc)
  case Nil
  then show ?case by simp
next
  case (Cons x xs)
  have "foldl (\<lambda>items (i, x). items[i := Some (f x)]) (acc[k := Some (f x)]) (enumerate (Suc k) xs)
      = take (Suc k) (acc[k := Some (f x)]) @ map (\<lambda>x. Some (f x)) xs"
    using Cons.prems by (intro Cons.IH) simp
  moreover have "take (Suc k) (acc[k := Some (f x)]) = take k acc @ [Some (f x)]"
    using Cons.prems by (simp add: take_Suc_conv_app_nth)
  ultimately show ?case by simp
qed

lemma c_put_items_map:
  "c_put_items env br = map (\<lambda>b. Some (PutEntry_new (SerializeToString env b))) br"
  unfolding c_put_items_def by (subst fill) simp_all

lemma c_block_ids_map: "c_block_ids ids = map (\<lambda>i. Some (encode i)) ids"
  unfolding c_block_ids_def by (subst fill) simp_all

lemma next_yield:
  assumes "fst (BlockIterator_next env it w) = Inr b"
  shows "c_iter_ptr it \<noteq> 0 \<and>
         result_code (LIBRARY env) w (name it @ ''_next'') (next_args env it) = ErrorCode_Success \<and>
         fst (next_vec env it w) \<noteq> None \<and>
         ParseFromString env (next_payload env it w) = Some b"
proof -
  have nz: "c_iter_ptr it \<noteq> 0"
    using assms by (cases "c_iter_ptr it = 0") (simp_all add: next_null)
  show ?thesis
    using assms nz
    by (auto simp: next_eq [OF nz] exec_result_ok [symmetric] split: sum.splits if_splits option.splits)
qed

lemma del_calls:
  "calls (snd (BlockIterator_del env it w)) =
     calls w @ (if c_iter_ptr it \<noteq> 0 then [(name it @ ''_drop'', [Arg_void_p (c_iter_ptr it)])] else [])"
  by (simp add: BlockIterator_del_def libexec_def exec_eq after_call_def)

lemma del_null: "c_iter_ptr it = 0 \<Longrightarrow> BlockIterator_del env it w = (Inr (), w)"
  by (simp add: BlockIterator_del_def)

lemma init_ptrs:
  "c_iter_ptr (fst (snd (GetBlockIterator_init env p ids w))) =
     (case result_cells (LIBRARY env) w ''block_manager_get_iterator_new''
        [Arg_void_p p, Arg_char_p_array (c_block_ids ids), Arg_size_t (length ids), Byref (C_void_p 0)] of
        [C_void_p q] \<Rightarrow> q | _ \<Rightarrow> 0)"
  "c_iter_ptr (fst (snd (BranchIterator_init env p tip w))) =
     (case result_cells (LIBRARY env) w ''block_manager_branch_iterator_new''
        [Arg_void_p p, Arg_char_p (encode tip), Byref (C_void_p 0)] of
        [C_void_p q] \<Rightarrow> q | _ \<Rightarrow> 0)"
  "c_iter_ptr (fst (snd (BranchDiffIterator_init env p tip exclude w))) =
     (case result_cells (LIBRARY env) w ''block_manager_branch_diff_iterator_new''
        [Arg_void_p p, Arg_char_p (encode tip), Arg_char_p (encode exclude), Byref (C_void_p 0)] of
        [C_void_p q] \<Rightarrow> q | _ \<Rightarrow> 0)"
  by (simp_all add: GetBlockIterator_init_def BranchIterator_init_def BranchDiffIterator_init_def
      libexec_def exec_eq)

lemma nexts_add:
  "nexts env it (j + k) w =
     (case nexts env it j w of
        (bs, None, w') \<Rightarrow> (case nexts env it k w' of (cs, stop, w'') \<Rightarrow> (bs @ cs, stop, w''))
      | (bs, Some e, w') \<Rightarrow> (bs, Some e, w'))"
proof (induction j arbitrary: w)
  case 0
  then show ?case by (simp split: prod.splits)
next
  case (Suc j)
  show ?case
  proof (cases "BlockIterator_next env it w")
    case (Pair r w1)
    show ?thesis
    proof (cases r)
      case (Inl e)
      with Pair show ?thesis by simp
    next
      case (Inr b)
      with Pair Suc.IH [of w1] show ?thesis
        by (simp split: prod.splits option.splits)
    qed
  qed
qed

lemma after_nexts_null: "c_iter_ptr it = 0 \<Longrightarrow> after_nexts env it k w = w"
  by (induction k) (simp_all add: next_null)

lemma next_failed:
  assumes "c_iter_ptr it \<noteq> 0" and "cursor_failed env it (native w)"
  shows "\<exists>e. fst (BlockIterator_next env it w) = Inl e"
  using assms(2)
  by (auto simp: next_eq [OF assms(1)] cursor_failed_def result_code_def next_vec_def result_cells_def
      exec_result_ok [symmetric] split: sum.splits prod.splits)

lemma native_after_next:
  "c_iter_ptr it \<noteq> 0 \<Longrightarrow>
   native (snd (BlockIterator_next env it w)) =
     snd (snd (LIBRARY env (native w) (name it @ ''_next'') (next_args env it)))"
  by (simp add: next_eq after_call_def)

lemma failed_after_nexts:
  assumes "c_iter_ptr it \<noteq> 0" and "stays_failed env it" and "cursor_failed env it (native w)"
  shows "cursor_failed env it (native (after_nexts env it k w))"
  using assms(3)
proof (induction k arbitrary: w)
  case 0
  then show ?case by simp
next
  case (Suc k)
  have "cursor_failed env it (native (snd (BlockIterator_next env it w)))"
    using assms(2) Suc.prems by (simp add: native_after_next [OF assms(1)] stays_failed_def)
  then show ?case by (simp add: Suc.IH)
qed

section \<open>The engine of the specification behind the wrapper\<close>

lemma those_map_Some: "(\<forall>x \<in> set xs. f x = Some (g x)) \<Longrightarrow> those (map f xs) = Some (map g xs)"
  by (induction xs) simp_all

lemma decode_put_items:
  assumes "\<forall>b \<in> set br. ParseFromString env (SerializeToString env b) = Some b"
  shows "decode_entries (ParseFromString env) (take (length br) (c_put_items env br)) = Some br"
proof -
  have "those (map (decode_entry (ParseFromString env))
          (map (\<lambda>b. Some (PutEntry_new (SerializeToString env b))) br)) = Some (map (\<lambda>b. b) br)"
    unfolding map_map
    by (rule those_map_Some) (use assms in \<open>simp add: decode_entry_def PutEntry_new_def\<close>)
  then show ?thesis
    by (simp add: decode_entries_def c_put_items_map)
qed

lemma insert_block_keeps: "i \<in> dom m \<Longrightarrow> i \<in> dom (insert_block m b)"
  by (auto simp: insert_block_def)

lemma insert_block_adds: "block_id b \<in> dom (insert_block m b)"
  by (auto simp: insert_block_def)

lemma insert_blocks_keeps: "i \<in> dom m \<Longrightarrow> i \<in> dom (insert_blocks bs m)"
  unfolding insert_blocks_def
proof (induction bs arbitrary: m)
  case Nil
  then show ?case by simp
next
  case (Cons a bs)
  from Cons.prems have "i \<in> dom (insert_block m a)"
    by (rule insert_block_keeps)
  from Cons.IH [OF this] show ?case by simp
qed

lemma insert_blocks_adds: "b \<in> set bs \<Longrightarrow> block_id b \<in> dom (insert_blocks bs m)"
proof (induction bs arbitrary: m)
  case Nil
  then show ?case by simp
next
  case (Cons a bs)
  show ?case
  proof (cases "b = a")
    case True
    have "block_id a \<in> dom (insert_blocks bs (insert_block m a))"
      by (rule insert_blocks_keeps) (rule insert_block_adds)
    with True show ?thesis by (simp add: insert_blocks_def)
  next
    case False
    with Cons.prems have "b \<in> set bs" by simp
    from Cons.IH [OF this, of "insert_block m a"] show ?thesis
      by (simp add: insert_blocks_def)
  qed
qed

lemma resolves_pool: "i \<in> dom (pool s) \<Longrightarrow> resolves s i"
  by (auto simp: resolves_def)

lemma engine_put_failure: "fst (engine_put s bs) \<noteq> ErrorCode_Success \<Longrightarrow> snd (engine_put s bs) = s"
  by (cases bs) (auto simp: engine_put_def codes split: if_splits)

lemma engine_put_success:
  assumes "fst (engine_put s bs) = ErrorCode_Success" and "b \<in> set bs"
  shows "resolves (snd (engine_put s bs)) (block_id b)"
proof -
  have "snd (engine_put s bs) = s\<lparr>pool := insert_blocks bs (pool s)\<rparr>"
    using assms(1) by (cases bs) (auto simp: engine_put_def codes split: if_splits)
  then show ?thesis
    by (simp add: resolves_pool insert_blocks_adds [OF assms(2)])
qed

lemma engine_contains:
  "LIBRARY env = engine_library parse \<Longrightarrow>
   contains env self i w =
     (Inr (resolves (native w) i),
      \<lparr>native = native w,
       calls = calls w @ [(''block_manager_contains'',
         [Arg_void_p (pointer self), Arg_char_p (encode i), Byref (C_bool False)])]\<rparr>)"
  by (simp add: contains_eq result_code_def result_cells_def after_call_def engine_library_def
      exec_result_def encode_def)

lemma engine_put_call:
  assumes "LIBRARY env = engine_library (ParseFromString env)"
      and "\<forall>b \<in> set br. ParseFromString env (SerializeToString env b) = Some b"
  shows "put env self br w =
     (exec_result (fst (engine_put (native w) br)),
      \<lparr>native = snd (engine_put (native w) br),
       calls = calls w @ [(''block_manager_put'',
         [Arg_void_p (pointer self), Arg_put_items (c_put_items env br), Arg_size_t (length br)])]\<rparr>)"
  by (simp add: put_eq result_code_def after_call_def assms(1) engine_library_def
      decode_put_items [OF assms(2)] split: prod.splits)

lemma engine_put_unchanged: "engine_put s bs = (res, s') \<Longrightarrow> res \<noteq> ErrorCode_Success \<Longrightarrow> s' = s"
  using engine_put_failure [of s bs] by simp

lemma engine_library_failure:
  "fst (engine_library parse s nm args) \<noteq> ErrorCode_Success \<Longrightarrow>
   snd (snd (engine_library parse s nm args)) = s"
  by (auto simp: engine_library_def dest: engine_put_unchanged
      split: list.splits c_arg.splits cell.splits option.splits prod.splits if_splits)

lemma put_failure_unchanged:
  assumes "LIBRARY env = engine_library parse" and "fst (put env self br w) = Inl e"
  shows "native (snd (put env self br w)) = native w"
proof -
  let ?args = "[Arg_void_p (pointer self), Arg_put_items (c_put_items env br), Arg_size_t (length br)]"
  have "exec_result (fst (LIBRARY env (native w) ''block_manager_put'' ?args)) = Inl e"
    using assms(2) by (simp add: put_eq result_code_def)
  then have "exec_result (fst (LIBRARY env (native w) ''block_manager_put'' ?args)) \<noteq> Inr ()"
    by simp
  then have "fst (LIBRARY env (native w) ''block_manager_put'' ?args) \<noteq> ErrorCode_Success"
    by (simp add: exec_result_ok)
  then have "snd (snd (LIBRARY env (native w) ''block_manager_put'' ?args)) = native w"
    unfolding assms(1) by (rule engine_library_failure)
  then show ?thesis
    by (simp add: put_eq after_call_def)
qed

lemma engine_env_library: "LIBRARY engine_env = engine_library (ParseFromString engine_env)"
  by (simp add: engine_env_def)

lemmas blocks = GENESIS_def B1_def B2_def B3_def B4_def

lemma codec_round_trip:
  "\<forall>b \<in> set [GENESIS, B1, B2, B3, B4].
     ParseFromString engine_env (SerializeToString engine_env b) = Some b"
  by (simp add: engine_env_def read_block_def write_block_def first_field_def rest_after_def blocks)

lemma countdown_stays_failed: "stays_failed (bytes_env countdown) it"
  by (simp add: stays_failed_def cursor_failed_def bytes_env_def countdown_def vec_cells_def codes)

section \<open>The native result code decides the outcome\<close>

text \<open>
  Claim C1, as amended. \<^verbatim>\<open>_exec\<close> returns normally exactly on the code Success, and for
  every other code raises the condition of the class the specification names for it.
  \<^verbatim>\<open>add_store\<close>, \<^verbatim>\<open>put\<close>, \<^verbatim>\<open>ref_block\<close>, \<^verbatim>\<open>unref_block\<close>, \<^verbatim>\<open>persist\<close>,
  \<^verbatim>\<open>__contains__\<close> and the construction of the three iterators have exactly the outcome
  \<^verbatim>\<open>_exec\<close> gives to the code of their one native call, raised at that call.
  \<^verbatim>\<open>__next__\<close> is different: with a null cursor pointer it raises StopIteration
  without a native call; otherwise it raises what \<^verbatim>\<open>_exec\<close> raises for a code other
  than Success, and on Success it raises StopIteration when the returned vector is
  null, the codec's error when the payload does not parse, and returns the parsed
  block otherwise.
\<close>

theorem outcome_follows_native_code:
  "(\<forall>res. (exec_result res = Inr ()) = (res = ErrorCode_Success)) \<and>
   (\<forall>res. res \<noteq> ErrorCode_Success \<longrightarrow>
      (\<exists>e. exec_result res = Inl e \<and> exn_class e = claimed_class res)) \<and>
   fst (add_store env self nm st w) =
     exec_result (result_code (PY_LIBRARY env) w ''block_manager_add_store''
       [Arg_void_p (pointer self), Arg_char_p (encode nm), Arg_py_object st]) \<and>
   fst (put env self br w) =
     exec_result (result_code (LIBRARY env) w ''block_manager_put''
       [Arg_void_p (pointer self), Arg_put_items (c_put_items env br), Arg_size_t (length br)]) \<and>
   fst (ref_block env self i w) =
     exec_result (result_code (LIBRARY env) w ''block_manager_ref_block''
       [Arg_void_p (pointer self), Arg_char_p (encode i)]) \<and>
   fst (unref_block env self i w) =
     exec_result (result_code (LIBRARY env) w ''block_manager_unref_block''
       [Arg_void_p (pointer self), Arg_char_p (encode i)]) \<and>
   fst (persist env self i sn w) =
     exec_result (result_code (LIBRARY env) w ''block_manager_persist''
       [Arg_void_p (pointer self), Arg_char_p (encode i), Arg_char_p (encode sn)]) \<and>
   map_sum id (\<lambda>b. ()) (fst (contains env self i w)) =
     exec_result (result_code (LIBRARY env) w ''block_manager_contains''
       [Arg_void_p (pointer self), Arg_char_p (encode i), Byref (C_bool False)]) \<and>
   map_sum id (\<lambda>it. ()) (fst (get env self ids w)) =
     exec_result (result_code (LIBRARY env) w ''block_manager_get_iterator_new''
       [Arg_void_p (pointer self), Arg_char_p_array (c_block_ids ids), Arg_size_t (length ids),
        Byref (C_void_p 0)]) \<and>
   map_sum id (\<lambda>it. ()) (fst (branch env self tip w)) =
     exec_result (result_code (LIBRARY env) w ''block_manager_branch_iterator_new''
       [Arg_void_p (pointer self), Arg_char_p (encode tip), Byref (C_void_p 0)]) \<and>
   map_sum id (\<lambda>it. ()) (fst (branch_diff env self tip exclude w)) =
     exec_result (result_code (LIBRARY env) w ''block_manager_branch_diff_iterator_new''
       [Arg_void_p (pointer self), Arg_char_p (encode tip), Arg_char_p (encode exclude),
        Byref (C_void_p 0)]) \<and>
   (c_iter_ptr it = 0 \<longrightarrow> BlockIterator_next env it w = (Inl StopIteration, w)) \<and>
   (c_iter_ptr it \<noteq> 0 \<longrightarrow>
      fst (BlockIterator_next env it w) =
        (case exec_result (result_code (LIBRARY env) w (name it @ ''_next'') (next_args env it)) of
           Inl e \<Rightarrow> Inl e
         | Inr u \<Rightarrow>
             (if fst (next_vec env it w) = None then Inl StopIteration
              else case ParseFromString env (next_payload env it w) of
                     None \<Rightarrow> Inl DecodeError | Some b \<Rightarrow> Inr b)))"
proof -
  have "\<forall>res. res \<noteq> ErrorCode_Success \<longrightarrow>
      (\<exists>e. exec_result res = Inl e \<and> exn_class e = claimed_class res)"
    using exec_result_class by blast
  moreover have "c_iter_ptr it \<noteq> 0 \<longrightarrow>
      fst (BlockIterator_next env it w) =
        (case exec_result (result_code (LIBRARY env) w (name it @ ''_next'') (next_args env it)) of
           Inl e \<Rightarrow> Inl e
         | Inr u \<Rightarrow>
             (if fst (next_vec env it w) = None then Inl StopIteration
              else case ParseFromString env (next_payload env it w) of
                     None \<Rightarrow> Inl DecodeError | Some b \<Rightarrow> Inr b))"
    by (simp add: next_eq)
  moreover have "c_iter_ptr it = 0 \<longrightarrow> BlockIterator_next env it w = (Inl StopIteration, w)"
    by (simp add: next_null)
  ultimately show ?thesis
    by (simp only: exec_result_ok add_store_eq put_eq ref_block_eq unref_block_eq persist_eq
        contains_outcome get_outcome branch_outcome branch_diff_outcome fst_conv simp_thms)
qed


text \<open>
  The claim as stated fails for \<^verbatim>\<open>__next__\<close>: the native call answers Success with a
  null vector, and the call raises StopIteration instead of returning.
\<close>

theorem next_success_without_block:
  "result_code (LIBRARY (bytes_env scripted))
     (start [(ErrorCode_Success, [C_uint8_p None, C_size_t 0, C_size_t 0])])
     (name \<lparr>name = ''block_manager_branch_iterator'', c_iter_ptr = 1\<rparr> @ ''_next'')
     (next_args (bytes_env scripted) \<lparr>name = ''block_manager_branch_iterator'', c_iter_ptr = 1\<rparr>)
     = ErrorCode_Success \<and>
   fst (BlockIterator_next (bytes_env scripted)
     \<lparr>name = ''block_manager_branch_iterator'', c_iter_ptr = 1\<rparr>
     (start [(ErrorCode_Success, [C_uint8_p None, C_size_t 0, C_size_t 0])])) = Inl StopIteration"
  by (simp add: BlockIterator_next_def libexec_def exec_def call_def exec_result_def result_code_def
      bytes_env_def scripted_def start_def vec_cells_def next_args_def codes)


text \<open>
  The theorem at concrete inputs: \<^verbatim>\<open>put\<close> on a native answer UnknownBlock and on
  Success, \<^verbatim>\<open>__next__\<close> on a null and on a live cursor.
\<close>

theorem outcome_follows_native_code_witness:
  "fst (put (bytes_env scripted) \<lparr>pointer = 1\<rparr> [''b'']
        (start [(ErrorCode_UnknownBlock, [])])) = Inl (UnknownBlock ''Block was unknown'') \<and>
   exn_class (UnknownBlock ''Block was unknown'') = claimed_class ErrorCode_UnknownBlock \<and>
   fst (put (bytes_env scripted) \<lparr>pointer = 1\<rparr> [''b''] (start [(ErrorCode_Success, [])])) = Inr () \<and>
   fst (BlockIterator_next (bytes_env scripted) \<lparr>name = ''block_manager_branch_iterator'', c_iter_ptr = 0\<rparr>
        (start [])) = Inl StopIteration \<and>
   fst (BlockIterator_next (bytes_env scripted) \<lparr>name = ''block_manager_branch_iterator'', c_iter_ptr = 1\<rparr>
        (start [(ErrorCode_Success, [C_uint8_p (Some ''B''), C_size_t 1, C_size_t 1])])) = Inr ''B''"
  using outcome_follows_native_code [of "bytes_env scripted" "\<lparr>pointer = 1\<rparr>" "''s''" "()"
      "start [(ErrorCode_UnknownBlock, [])]" "[''b'']" "''i''" "''s''" "[]" "''t''" "''x''"
      "\<lparr>name = ''block_manager_branch_iterator'', c_iter_ptr = 1\<rparr>"]
  by (simp add: BlockIterator_next_def put_def libexec_def exec_def call_def exec_result_def
      bytes_env_def scripted_def start_def vec_cells_def claimed_class_def codes)


section \<open>All-or-nothing insertion\<close>

text \<open>
  Claim C2, on the engine modelled from the specification. When the codec reads back
  what it wrote for the blocks of the branch, the outcome of \<^verbatim>\<open>put\<close> is the one the
  engine's validation decides, and when \<^verbatim>\<open>put\<close> returns, \<^verbatim>\<open>contains\<close> is true afterwards
  for every block id of the branch. When \<^verbatim>\<open>put\<close> raises, whatever the condition and
  whatever the codec, the engine state is the state before the call, and \<^verbatim>\<open>contains\<close>
  answers for every id as it did before: none of the branch's blocks has become visible.
\<close>

theorem put_is_all_or_nothing:
  assumes "LIBRARY env = engine_library (ParseFromString env)"
  shows "((\<forall>b \<in> set br. ParseFromString env (SerializeToString env b) = Some b) \<longrightarrow>
            fst (put env self br w) = exec_result (fst (engine_put (native w) br)) \<and>
            (fst (put env self br w) = Inr () \<longrightarrow>
               (\<forall>b \<in> set br.
                  fst (contains env self (block_id b) (snd (put env self br w))) = Inr True))) \<and>
         (\<forall>e. fst (put env self br w) = Inl e \<longrightarrow>
            native (snd (put env self br w)) = native w \<and>
            (\<forall>i. fst (contains env self i (snd (put env self br w))) = fst (contains env self i w)))"
proof -
  note c = engine_contains [OF assms]
  have ok: "(\<forall>b \<in> set br. ParseFromString env (SerializeToString env b) = Some b) \<longrightarrow>
      fst (put env self br w) = exec_result (fst (engine_put (native w) br)) \<and>
      (fst (put env self br w) = Inr () \<longrightarrow>
         (\<forall>b \<in> set br. fst (contains env self (block_id b) (snd (put env self br w))) = Inr True))"
  proof
    assume rt: "\<forall>b \<in> set br. ParseFromString env (SerializeToString env b) = Some b"
    note p = engine_put_call [OF assms rt, of self w]
    show "fst (put env self br w) = exec_result (fst (engine_put (native w) br)) \<and>
      (fst (put env self br w) = Inr () \<longrightarrow>
         (\<forall>b \<in> set br. fst (contains env self (block_id b) (snd (put env self br w))) = Inr True))"
      by (simp add: p c exec_result_ok engine_put_success)
  qed
  have bad: "\<forall>e. fst (put env self br w) = Inl e \<longrightarrow>
      native (snd (put env self br w)) = native w \<and>
      (\<forall>i. fst (contains env self i (snd (put env self br w))) = fst (contains env self i w))"
  proof (intro allI impI)
    fix e
    assume "fst (put env self br w) = Inl e"
    then have "native (snd (put env self br w)) = native w"
      by (rule put_failure_unchanged [OF assms])
    then show "native (snd (put env self br w)) = native w \<and>
      (\<forall>i. fst (contains env self i (snd (put env self br w))) = fst (contains env self i w))"
      by (simp add: c)
  qed
  from ok bad show ?thesis
    by blast
qed

text \<open>
  The theorem on the example of the specification: the branch GENESIS, B1, B2 is
  inserted into the empty engine and B2 is visible; the branch B3, B4 then breaks
  contiguity (the predecessor of B4 is B2), so \<^verbatim>\<open>put\<close> raises
  MissingPredecessorInBranch, the state stays, and B3 is not visible.
\<close>

theorem put_is_all_or_nothing_witness:
  "LIBRARY engine_env = engine_library (ParseFromString engine_env) \<and>
   fst (put engine_env \<lparr>pointer = 1\<rparr> [GENESIS, B1, B2] (start empty_engine)) = Inr () \<and>
   fst (contains engine_env \<lparr>pointer = 1\<rparr> ''B2''
          (snd (put engine_env \<lparr>pointer = 1\<rparr> [GENESIS, B1, B2] (start empty_engine)))) = Inr True \<and>
   fst (put engine_env \<lparr>pointer = 1\<rparr> [B3, B4]
          (snd (put engine_env \<lparr>pointer = 1\<rparr> [GENESIS, B1, B2] (start empty_engine)))) =
     Inl (MissingPredecessorInBranch ''Missing predecessor'') \<and>
   native (snd (put engine_env \<lparr>pointer = 1\<rparr> [B3, B4]
          (snd (put engine_env \<lparr>pointer = 1\<rparr> [GENESIS, B1, B2] (start empty_engine))))) =
     native (snd (put engine_env \<lparr>pointer = 1\<rparr> [GENESIS, B1, B2] (start empty_engine))) \<and>
   fst (contains engine_env \<lparr>pointer = 1\<rparr> ''B3''
          (snd (put engine_env \<lparr>pointer = 1\<rparr> [B3, B4]
             (snd (put engine_env \<lparr>pointer = 1\<rparr> [GENESIS, B1, B2] (start empty_engine)))))) = Inr False"
proof -
  let ?bm = "\<lparr>pointer = 1\<rparr>"
  let ?w1 = "snd (put engine_env ?bm [GENESIS, B1, B2] (start empty_engine))"
  have rt1: "\<forall>b \<in> set [GENESIS, B1, B2].
      ParseFromString engine_env (SerializeToString engine_env b) = Some b"
    using codec_round_trip by simp
  have rt2: "\<forall>b \<in> set [B3, B4].
      ParseFromString engine_env (SerializeToString engine_env b) = Some b"
    using codec_round_trip by simp
  have e1: "fst (engine_put empty_engine [GENESIS, B1, B2]) = ErrorCode_Success"
    by (simp add: engine_put_def blocks)
  have "native ?w1 = snd (engine_put empty_engine [GENESIS, B1, B2])"
    by (simp add: engine_put_call [OF engine_env_library rt1] start_def)
  also have "\<dots> = empty_engine\<lparr>pool := insert_blocks [GENESIS, B1, B2] (pool empty_engine)\<rparr>"
    by (simp add: engine_put_def blocks)
  finally have n1:
    "native ?w1 = empty_engine\<lparr>pool := insert_blocks [GENESIS, B1, B2] (pool empty_engine)\<rparr>" .
  have e2: "fst (engine_put (native ?w1) [B3, B4]) = ErrorCode_MissingPredecessorInBranch"
    unfolding n1
    by (simp add: engine_put_def resolves_def empty_engine_def insert_blocks_def insert_block_def blocks)
  have "\<not> resolves (native ?w1) ''B3''"
    unfolding n1
    by (simp add: resolves_def empty_engine_def insert_blocks_def insert_block_def blocks)
  then have c0: "fst (contains engine_env ?bm ''B3'' ?w1) = Inr False"
    by (simp add: engine_contains [OF engine_env_library])
  note t1 = put_is_all_or_nothing [OF engine_env_library,
      where br = "[GENESIS, B1, B2]" and self = ?bm and w = "start empty_engine"]
  note t2 = put_is_all_or_nothing [OF engine_env_library,
      where br = "[B3, B4]" and self = ?bm and w = ?w1]
  have p1: "fst (put engine_env ?bm [GENESIS, B1, B2] (start empty_engine)) = Inr ()"
    using t1 rt1 e1 by (simp add: start_def exec_result_def)
  have "fst (contains engine_env ?bm (block_id B2) ?w1) = Inr True"
    using t1 rt1 p1 by simp
  then have c1: "fst (contains engine_env ?bm ''B2'' ?w1) = Inr True"
    by (simp add: B2_def)
  have p2: "fst (put engine_env ?bm [B3, B4] ?w1) =
      Inl (MissingPredecessorInBranch ''Missing predecessor'')"
    using t2 rt2 e2 by (simp add: exec_result_def codes)
  have n2: "native (snd (put engine_env ?bm [B3, B4] ?w1)) = native ?w1"
    using t2 p2 by simp
  have c2: "fst (contains engine_env ?bm ''B3'' (snd (put engine_env ?bm [B3, B4] ?w1))) = Inr False"
    using t2 p2 c0 by simp
  from p1 c1 p2 n2 c2 show ?thesis
    by (simp add: engine_env_library)
qed

section \<open>Membership\<close>

text \<open>
  Claim C3, on the engine modelled from the specification. \<^verbatim>\<open>__contains__\<close> always
  returns, its value is a boolean that is true exactly when the id is in the pool or in
  some registered store, and the engine state after the call is the state before it
  (the call is only added to the list of native calls made).
\<close>

theorem contains_is_a_pure_lookup:
  assumes "LIBRARY env = engine_library parse"
  shows "contains env self i w =
           (Inr (resolves (native w) i),
            \<lparr>native = native w,
             calls = calls w @ [(''block_manager_contains'',
               [Arg_void_p (pointer self), Arg_char_p (encode i), Byref (C_bool False)])]\<rparr>) \<and>
         resolves (native w) i =
           (i \<in> dom (pool (native w)) \<or> (\<exists>(nm, st) \<in> set (stores (native w)). i \<in> dom st))"
  by (auto simp: engine_contains [OF assms] resolves_def list_ex_iff dom_def)

text \<open>
  The theorem on an engine that holds B2 in its pool and B1 in the store
  \<^verbatim>\<open>store1\<close>: B1 resolves through the store, B3 does not resolve.
\<close>

theorem contains_is_a_pure_lookup_witness:
  "LIBRARY engine_env = engine_library (ParseFromString engine_env) \<and>
   fst (contains engine_env \<lparr>pointer = 1\<rparr> ''B1''
      (start \<lparr>pool = [''B2'' \<mapsto> (B2, 0)], stores = [(''store1'', [''B1'' \<mapsto> B1])]\<rparr>)) = Inr True \<and>
   fst (contains engine_env \<lparr>pointer = 1\<rparr> ''B3''
      (start \<lparr>pool = [''B2'' \<mapsto> (B2, 0)], stores = [(''store1'', [''B1'' \<mapsto> B1])]\<rparr>)) = Inr False \<and>
   native (snd (contains engine_env \<lparr>pointer = 1\<rparr> ''B1''
      (start \<lparr>pool = [''B2'' \<mapsto> (B2, 0)], stores = [(''store1'', [''B1'' \<mapsto> B1])]\<rparr>))) =
     \<lparr>pool = [''B2'' \<mapsto> (B2, 0)], stores = [(''store1'', [''B1'' \<mapsto> B1])]\<rparr>"
  using contains_is_a_pure_lookup [OF engine_env_library, of "\<lparr>pointer = 1\<rparr>" "''B1''"
      "start \<lparr>pool = [''B2'' \<mapsto> (B2, 0)], stores = [(''store1'', [''B1'' \<mapsto> B1])]\<rparr>"]
    contains_is_a_pure_lookup [OF engine_env_library, of "\<lparr>pointer = 1\<rparr>" "''B3''"
      "start \<lparr>pool = [''B2'' \<mapsto> (B2, 0)], stores = [(''store1'', [''B1'' \<mapsto> B1])]\<rparr>"]
  by (simp add: engine_env_library start_def resolves_def)

section \<open>The conditions as tags\<close>

text \<open>
  Claim C4, as amended. Each of MissingPredecessor, MissingPredecessorInBranch,
  MissingInput and UnknownBlock is raised as an exception class of its own, for exactly
  one result code. InvalidInputString has no class of its own: it is raised as
  TypeError, the class also raised for NullPointerProvided, and only the message
  ("Invalid block store name provided") tells the two apart. The generic Exception,
  with the code in its message, is raised for exactly the codes that are none of
  Success, NullPointerProvided, StopIteration, the four kinds above and
  InvalidInputString.
\<close>

theorem conditions_by_class:
  "(raised_class res = Some ''MissingPredecessor'') = (res = ErrorCode_MissingPredecessor) \<and>
   (raised_class res = Some ''MissingPredecessorInBranch'') = (res = ErrorCode_MissingPredecessorInBranch) \<and>
   (raised_class res = Some ''MissingInput'') = (res = ErrorCode_MissingInput) \<and>
   (raised_class res = Some ''UnknownBlock'') = (res = ErrorCode_UnknownBlock) \<and>
   (raised_class res = Some ''TypeError'') =
      (res = ErrorCode_NullPointerProvided \<or> res = ErrorCode_InvalidInputString) \<and>
   exec_result ErrorCode_InvalidInputString = Inl (TypeError ''Invalid block store name provided'') \<and>
   exec_result ErrorCode_NullPointerProvided = Inl (TypeError ''Provided null pointer(s)'') \<and>
   (raised_class res = Some ''Exception'') =
      (res \<notin> {ErrorCode_Success, ErrorCode_NullPointerProvided, ErrorCode_StopIteration,
               ErrorCode_MissingPredecessor, ErrorCode_MissingPredecessorInBranch,
               ErrorCode_MissingInput, ErrorCode_UnknownBlock, ErrorCode_InvalidInputString}) \<and>
   (raised_class res = Some ''Exception'') =
      (exec_result res = Inl (Exception (''There was an unknown error: '' @ format_int res)))"
  by (simp add: raised_class_def exec_result_def codes)

text \<open>
  The claim as stated fails: the codes InvalidInputString and NullPointerProvided are
  different and raise the same class, so a caller matching on the class cannot tell
  a malformed store name from a null pointer.
\<close>

theorem invalid_input_string_shares_type_error:
  "raised_class ErrorCode_InvalidInputString = raised_class ErrorCode_NullPointerProvided \<and>
   ErrorCode_InvalidInputString \<noteq> ErrorCode_NullPointerProvided \<and>
   raised_class ErrorCode_InvalidInputString = Some ''TypeError''"
  by (simp add: raised_class_def exec_result_def codes)

text \<open>The theorem at the codes 4, 6 and 7.\<close>

theorem conditions_by_class_witness:
  "raised_class 4 = Some ''MissingInput'' \<and> raised_class 6 = Some ''TypeError'' \<and>
   raised_class 7 = Some ''Exception'' \<and>
   exec_result 7 = Inl (Exception ''There was an unknown error: 7'')"
proof -
  have "format_int 7 = ''7''"
    by code_simp
  then show ?thesis
    using conditions_by_class [of 4] conditions_by_class [of 6] conditions_by_class [of 7]
    by (auto simp: codes)
qed

section \<open>Blocks cross the boundary as payloads\<close>

text \<open>
  Claim C5. For a branch of \<open>n\<close> blocks, \<^verbatim>\<open>put\<close> builds \<open>n\<close> entries, the \<open>i\<close>-th being
  the serialization of the \<open>i\<close>-th block with the length of that serialization as its
  recorded length; its one native call is \<^verbatim>\<open>block_manager_put\<close> with the manager
  pointer, these entries and \<open>n\<close>, and nothing else. Every block that \<^verbatim>\<open>__next__\<close>
  yields is the codec's parse of the payload read from the vector that the native
  cursor returned with the code Success.
\<close>

theorem blocks_cross_as_payloads:
  "length (c_put_items env br) = length br \<and>
   (\<forall>i < length br. c_put_items env br ! i =
      Some \<lparr>block_bytes = SerializeToString env (br ! i),
            block_bytes_len = length (SerializeToString env (br ! i))\<rparr>) \<and>
   calls (snd (put env self br w)) =
     calls w @ [(''block_manager_put'',
                 [Arg_void_p (pointer self), Arg_put_items (c_put_items env br),
                  Arg_size_t (length br)])] \<and>
   (\<forall>b. fst (BlockIterator_next env it w) = Inr b \<longrightarrow>
      result_code (LIBRARY env) w (name it @ ''_next'') (next_args env it) = ErrorCode_Success \<and>
      ParseFromString env (next_payload env it w) = Some b)"
proof -
  have "\<forall>b. fst (BlockIterator_next env it w) = Inr b \<longrightarrow>
      result_code (LIBRARY env) w (name it @ ''_next'') (next_args env it) = ErrorCode_Success \<and>
      ParseFromString env (next_payload env it w) = Some b"
    by (auto dest: next_yield)
  then show ?thesis
    by (simp add: c_put_items_map PutEntry_new_def put_eq after_call_def)
qed

text \<open>The theorem on a branch of two blocks and on a cursor that hands out one payload.\<close>

theorem blocks_cross_as_payloads_witness:
  "c_put_items (bytes_env scripted) [''ab'', ''c''] =
     [Some \<lparr>block_bytes = ''ab'', block_bytes_len = 2\<rparr>, Some \<lparr>block_bytes = ''c'', block_bytes_len = 1\<rparr>] \<and>
   fst (BlockIterator_next (bytes_env scripted) \<lparr>name = ''block_manager_get_iterator'', c_iter_ptr = 1\<rparr>
        (start [(ErrorCode_Success, [C_uint8_p (Some ''B''), C_size_t 1, C_size_t 1])])) = Inr ''B'' \<and>
   ParseFromString (bytes_env scripted)
     (next_payload (bytes_env scripted) \<lparr>name = ''block_manager_get_iterator'', c_iter_ptr = 1\<rparr>
        (start [(ErrorCode_Success, [C_uint8_p (Some ''B''), C_size_t 1, C_size_t 1])])) = Some ''B''"
  using blocks_cross_as_payloads [of "bytes_env scripted" "[''ab'', ''c'']" "\<lparr>pointer = 1\<rparr>"
      "start [(ErrorCode_Success, [C_uint8_p (Some ''B''), C_size_t 1, C_size_t 1])]"
      "\<lparr>name = ''block_manager_get_iterator'', c_iter_ptr = 1\<rparr>"]
  by (simp add: BlockIterator_next_def libexec_def exec_def call_def exec_result_def
      bytes_env_def scripted_def start_def vec_cells_def codes c_put_items_map PutEntry_new_def
      next_payload_def next_vec_def result_cells_def next_args_def)

section \<open>The end of the data ends the iteration\<close>

text \<open>
  Claim C6. On an iterator with a live cursor, when the native \<^verbatim>\<open>_next\<close> answers the
  code StopIteration, or answers Success and leaves a null vector, \<^verbatim>\<open>__next__\<close>
  raises StopIteration, the normal end of a Python iteration.
\<close>

theorem end_of_data_stops_iteration:
  assumes "c_iter_ptr it \<noteq> 0"
      and "result_code (LIBRARY env) w (name it @ ''_next'') (next_args env it) = ErrorCode_StopIteration \<or>
           result_code (LIBRARY env) w (name it @ ''_next'') (next_args env it) = ErrorCode_Success \<and>
           fst (next_vec env it w) = None"
  shows "fst (BlockIterator_next env it w) = Inl StopIteration"
  using assms(2) by (auto simp: next_eq [OF assms(1)] exec_result_def codes)

text \<open>
  The theorem on both signals: the countdown cursor with nothing left answers the code
  StopIteration; a scripted cursor answers Success with a null vector.
\<close>

theorem end_of_data_stops_iteration_witness:
  "fst (BlockIterator_next (bytes_env countdown) \<lparr>name = ''block_manager_branch_iterator'', c_iter_ptr = 1\<rparr>
        (start 0)) = Inl StopIteration \<and>
   fst (BlockIterator_next (bytes_env scripted) \<lparr>name = ''block_manager_branch_diff_iterator'', c_iter_ptr = 1\<rparr>
        (start [(ErrorCode_Success, [C_uint8_p None, C_size_t 0, C_size_t 0])])) = Inl StopIteration"
proof -
  have "fst (BlockIterator_next (bytes_env countdown)
          \<lparr>name = ''block_manager_branch_iterator'', c_iter_ptr = 1\<rparr> (start 0)) = Inl StopIteration"
    by (rule end_of_data_stops_iteration)
      (simp_all add: result_code_def bytes_env_def countdown_def start_def)
  moreover have "fst (BlockIterator_next (bytes_env scripted)
          \<lparr>name = ''block_manager_branch_diff_iterator'', c_iter_ptr = 1\<rparr>
          (start [(ErrorCode_Success, [C_uint8_p None, C_size_t 0, C_size_t 0])])) = Inl StopIteration"
    by (rule end_of_data_stops_iteration)
      (simp_all add: result_code_def result_cells_def next_vec_def next_args_def vec_cells_def
        bytes_env_def scripted_def start_def)
  ultimately show ?thesis by simp
qed

section \<open>An iterator after a failure\<close>

text \<open>
  Claim C7, as amended. The wrapper keeps no record of a failure: \<^verbatim>\<open>__next__\<close> never
  changes the iterator object. An iterator with a null cursor pointer raises
  StopIteration on every call. On an iterator with a live cursor, when the native
  cursor has failed (a code other than Success, or a null vector) and a failed native
  cursor stays failed, every later \<^verbatim>\<open>__next__\<close> on that iterator raises and yields no
  block.
\<close>

theorem failed_iterator_stays_failed:
  "(c_iter_ptr it = 0 \<longrightarrow>
      BlockIterator_next env it (after_nexts env it k w) = (Inl StopIteration, w)) \<and>
   (c_iter_ptr it \<noteq> 0 \<and> cursor_failed env it (native w) \<and> stays_failed env it \<longrightarrow>
      (\<exists>e. fst (BlockIterator_next env it (after_nexts env it k w)) = Inl e))"
  using next_failed [of it env "after_nexts env it k w"] failed_after_nexts [of it env w k]
  by (simp add: after_nexts_null next_null)

text \<open>
  The claim as stated fails on the wrapper alone: a native cursor answers UnknownBlock
  to the first \<^verbatim>\<open>_next\<close> and a payload to the second; the first \<^verbatim>\<open>__next__\<close> raises
  UnknownBlock and the second, on the same iterator, yields a block.
\<close>

theorem failed_iterator_resumes:
  "fst (BlockIterator_next (bytes_env scripted) \<lparr>name = ''block_manager_get_iterator'', c_iter_ptr = 1\<rparr>
     (start [(ErrorCode_UnknownBlock, [C_uint8_p None, C_size_t 0, C_size_t 0]),
             (ErrorCode_Success, [C_uint8_p (Some ''B''), C_size_t 1, C_size_t 1])]))
     = Inl (UnknownBlock ''Block was unknown'') \<and>
   fst (BlockIterator_next (bytes_env scripted) \<lparr>name = ''block_manager_get_iterator'', c_iter_ptr = 1\<rparr>
     (snd (BlockIterator_next (bytes_env scripted) \<lparr>name = ''block_manager_get_iterator'', c_iter_ptr = 1\<rparr>
        (start [(ErrorCode_UnknownBlock, [C_uint8_p None, C_size_t 0, C_size_t 0]),
                (ErrorCode_Success, [C_uint8_p (Some ''B''), C_size_t 1, C_size_t 1])]))))
     = Inr ''B''"
  by (simp add: BlockIterator_next_def libexec_def exec_def call_def exec_result_def
      bytes_env_def scripted_def start_def vec_cells_def codes)

text \<open>
  The theorem on the countdown cursor with nothing left, which stays failed, after
  three further calls; and on an iterator with a null cursor pointer.
\<close>

theorem failed_iterator_stays_failed_witness:
  "cursor_failed (bytes_env countdown) \<lparr>name = ''block_manager_branch_iterator'', c_iter_ptr = 1\<rparr>
     (native (start 0)) \<and>
   stays_failed (bytes_env countdown) \<lparr>name = ''block_manager_branch_iterator'', c_iter_ptr = 1\<rparr> \<and>
   (\<exists>e. fst (BlockIterator_next (bytes_env countdown)
             \<lparr>name = ''block_manager_branch_iterator'', c_iter_ptr = 1\<rparr>
             (after_nexts (bytes_env countdown)
                \<lparr>name = ''block_manager_branch_iterator'', c_iter_ptr = 1\<rparr> 3 (start 0))) = Inl e) \<and>
   BlockIterator_next (bytes_env countdown) \<lparr>name = ''block_manager_branch_iterator'', c_iter_ptr = 0\<rparr>
     (after_nexts (bytes_env countdown)
        \<lparr>name = ''block_manager_branch_iterator'', c_iter_ptr = 0\<rparr> 3 (start 5))
     = (Inl StopIteration, start 5)"
proof -
  have f: "cursor_failed (bytes_env countdown)
      \<lparr>name = ''block_manager_branch_iterator'', c_iter_ptr = 1\<rparr> (native (start 0))"
    by (simp add: cursor_failed_def bytes_env_def countdown_def start_def codes)
  show ?thesis
    using f countdown_stays_failed
      failed_iterator_stays_failed [of "\<lparr>name = ''block_manager_branch_iterator'', c_iter_ptr = 1\<rparr>"
        "bytes_env countdown" 3 "start 0"]
      failed_iterator_stays_failed [of "\<lparr>name = ''block_manager_branch_iterator'', c_iter_ptr = 0\<rparr>"
        "bytes_env countdown" 3 "start 5"]
    by simp
qed

section \<open>Single pass\<close>

text \<open>
  Claim C8. \<^verbatim>\<open>__iter__\<close> returns the object itself, and does so again on its result.
  So a second loop over the same object goes on where the first one stopped: a loop
  left after \<open>j\<close> elements followed by a loop of at most \<open>k\<close> elements over the same
  object yields what one loop of at most \<open>j + k\<close> elements yields.
\<close>

theorem iter_is_the_same_cursor:
  "BlockIterator_iter it = it \<and>
   BlockIterator_iter (BlockIterator_iter it) = BlockIterator_iter it \<and>
   for_loop env it (j + k) w =
     (case for_loop env it j w of
        (bs, None, w') \<Rightarrow> (case for_loop env it k w' of (cs, stop, w'') \<Rightarrow> (bs @ cs, stop, w''))
      | (bs, Some e, w') \<Rightarrow> (bs, Some e, w'))"
  unfolding for_loop_def BlockIterator_iter_def by (simp add: nexts_add)

text \<open>
  The theorem on the countdown cursor with three payloads left: a loop left after one
  element, then a second loop over the same object.
\<close>

theorem iter_is_the_same_cursor_witness:
  "for_loop (bytes_env countdown) \<lparr>name = ''block_manager_branch_iterator'', c_iter_ptr = 1\<rparr> 1 (start 3)
     = ([''B''], None, \<lparr>native = 2, calls = [(''block_manager_branch_iterator_next'',
          [Arg_void_p 1, Byref (C_uint8_p None), Byref (C_size_t 0), Byref (C_size_t 0)])]\<rparr>) \<and>
   fst (for_loop (bytes_env countdown) \<lparr>name = ''block_manager_branch_iterator'', c_iter_ptr = 1\<rparr> (1 + 5)
     (start 3)) =
   [''B''] @ fst (for_loop (bytes_env countdown) \<lparr>name = ''block_manager_branch_iterator'', c_iter_ptr = 1\<rparr> 5
     \<lparr>native = 2, calls = [(''block_manager_branch_iterator_next'',
          [Arg_void_p 1, Byref (C_uint8_p None), Byref (C_size_t 0), Byref (C_size_t 0)])]\<rparr>)"
proof -
  have one: "for_loop (bytes_env countdown) \<lparr>name = ''block_manager_branch_iterator'', c_iter_ptr = 1\<rparr> 1 (start 3)
     = ([''B''], None, \<lparr>native = 2, calls = [(''block_manager_branch_iterator_next'',
          [Arg_void_p 1, Byref (C_uint8_p None), Byref (C_size_t 0), Byref (C_size_t 0)])]\<rparr>)"
    by (simp add: for_loop_def BlockIterator_iter_def BlockIterator_next_def libexec_def exec_def
        call_def exec_result_def bytes_env_def countdown_def start_def vec_cells_def codes)
  have eq: "for_loop (bytes_env countdown) \<lparr>name = ''block_manager_branch_iterator'', c_iter_ptr = 1\<rparr>
      (1 + 5) (start 3) =
     (case for_loop (bytes_env countdown) \<lparr>name = ''block_manager_branch_iterator'', c_iter_ptr = 1\<rparr>
        1 (start 3) of
        (bs, None, w') \<Rightarrow>
          (case for_loop (bytes_env countdown)
              \<lparr>name = ''block_manager_branch_iterator'', c_iter_ptr = 1\<rparr> 5 w' of
             (cs, stop, w'') \<Rightarrow> (bs @ cs, stop, w''))
      | (bs, Some e, w') \<Rightarrow> (bs, Some e, w'))"
    using iter_is_the_same_cursor [of "\<lparr>name = ''block_manager_branch_iterator'', c_iter_ptr = 1\<rparr>"
        "bytes_env countdown" 1 5 "start 3"]
    by blast
  show ?thesis
    unfolding eq one by (simp split: prod.splits)
qed

section \<open>Empty input\<close>

text \<open>
  Claim C9, on the engine modelled from the specification. \<^verbatim>\<open>put\<close> of the empty
  sequence raises MissingInput, and the engine state after it is the state before it.
\<close>

theorem put_empty_is_missing_input:
  assumes "LIBRARY env = engine_library parse"
  shows "fst (put env self [] w) = Inl (MissingInput ''Missing input to put method'') \<and>
         native (snd (put env self [] w)) = native w"
  by (simp add: put_eq result_code_def after_call_def assms engine_library_def c_put_items_map
      decode_entries_def engine_put_def exec_result_def codes)

text \<open>The theorem on an engine that holds B2 in its pool and B1 in a store.\<close>

theorem put_empty_is_missing_input_witness:
  "LIBRARY engine_env = engine_library (ParseFromString engine_env) \<and>
   fst (put engine_env \<lparr>pointer = 1\<rparr> []
      (start \<lparr>pool = [''B2'' \<mapsto> (B2, 0)], stores = [(''store1'', [''B1'' \<mapsto> B1])]\<rparr>)) =
     Inl (MissingInput ''Missing input to put method'') \<and>
   native (snd (put engine_env \<lparr>pointer = 1\<rparr> []
      (start \<lparr>pool = [''B2'' \<mapsto> (B2, 0)], stores = [(''store1'', [''B1'' \<mapsto> B1])]\<rparr>))) =
     \<lparr>pool = [''B2'' \<mapsto> (B2, 0)], stores = [(''store1'', [''B1'' \<mapsto> B1])]\<rparr>"
  using put_empty_is_missing_input [OF engine_env_library, of "\<lparr>pointer = 1\<rparr>"
      "start \<lparr>pool = [''B2'' \<mapsto> (B2, 0)], stores = [(''store1'', [''B1'' \<mapsto> B1])]\<rparr>"]
  by (simp add: engine_env_library start_def)

section \<open>Dropping the native cursor\<close>

text \<open>
  Claim C10. The destructor makes exactly one native call, the cursor's \<^verbatim>\<open>_drop\<close> on
  the cursor pointer, when the pointer is not null, and no native call when it is null.
  \<^verbatim>\<open>__next__\<close> on an iterator with a null pointer raises StopIteration and leaves the
  world as it was: no native call. The pointer of the object a constructor leaves is what
  the native \<^verbatim>\<open>_new\<close> wrote into the cell, and null when it wrote nothing; so a cursor
  whose construction left the pointer null is never dropped natively.
\<close>

theorem drop_only_a_live_cursor:
  "calls (snd (BlockIterator_del env it w)) =
     calls w @ (if c_iter_ptr it \<noteq> 0 then [(name it @ ''_drop'', [Arg_void_p (c_iter_ptr it)])] else []) \<and>
   (c_iter_ptr it = 0 \<longrightarrow>
      BlockIterator_del env it w = (Inr (), w) \<and>
      BlockIterator_next env it w = (Inl StopIteration, w)) \<and>
   c_iter_ptr (fst (snd (GetBlockIterator_init env p ids w))) =
     (case result_cells (LIBRARY env) w ''block_manager_get_iterator_new''
        [Arg_void_p p, Arg_char_p_array (c_block_ids ids), Arg_size_t (length ids), Byref (C_void_p 0)] of
        [C_void_p q] \<Rightarrow> q | _ \<Rightarrow> 0) \<and>
   c_iter_ptr (fst (snd (BranchIterator_init env p tip w))) =
     (case result_cells (LIBRARY env) w ''block_manager_branch_iterator_new''
        [Arg_void_p p, Arg_char_p (encode tip), Byref (C_void_p 0)] of
        [C_void_p q] \<Rightarrow> q | _ \<Rightarrow> 0) \<and>
   c_iter_ptr (fst (snd (BranchDiffIterator_init env p tip exclude w))) =
     (case result_cells (LIBRARY env) w ''block_manager_branch_diff_iterator_new''
        [Arg_void_p p, Arg_char_p (encode tip), Arg_char_p (encode exclude), Byref (C_void_p 0)] of
        [C_void_p q] \<Rightarrow> q | _ \<Rightarrow> 0) \<and>
   name (fst (snd (GetBlockIterator_init env p ids w))) = ''block_manager_get_iterator'' \<and>
   name (fst (snd (BranchIterator_init env p tip w))) = ''block_manager_branch_iterator'' \<and>
   name (fst (snd (BranchDiffIterator_init env p tip exclude w))) = ''block_manager_branch_diff_iterator''"
  by (simp add: del_calls del_null next_null init_ptrs)
    (simp add: GetBlockIterator_init_def BranchIterator_init_def BranchDiffIterator_init_def
      split: prod.splits)

text \<open>
  The theorem on a live cursor, and on the object left by a constructor whose native
  \<^verbatim>\<open>_new\<close> failed without writing a pointer.
\<close>

theorem drop_only_a_live_cursor_witness:
  "calls (snd (BlockIterator_del (bytes_env scripted)
      \<lparr>name = ''block_manager_get_iterator'', c_iter_ptr = 7\<rparr> (start [(ErrorCode_Success, [])]))) =
     [(''block_manager_get_iterator_drop'', [Arg_void_p 7])] \<and>
   fst (GetBlockIterator_init (bytes_env scripted) 1 [''a'']
      (start [(ErrorCode_Error, [C_void_p 0])])) =
     Inl (Exception ''There was an unknown error: 7'') \<and>
   c_iter_ptr (fst (snd (GetBlockIterator_init (bytes_env scripted) 1 [''a'']
      (start [(ErrorCode_Error, [C_void_p 0])])))) = 0 \<and>
   BlockIterator_del (bytes_env scripted)
     (fst (snd (GetBlockIterator_init (bytes_env scripted) 1 [''a''] (start [(ErrorCode_Error, [C_void_p 0])]))))
     (snd (snd (GetBlockIterator_init (bytes_env scripted) 1 [''a''] (start [(ErrorCode_Error, [C_void_p 0])]))))
   = (Inr (), snd (snd (GetBlockIterator_init (bytes_env scripted) 1 [''a''] (start [(ErrorCode_Error, [C_void_p 0])]))))"
proof -
  have f7: "format_int 7 = ''7''"
    by code_simp
  have init: "GetBlockIterator_init (bytes_env scripted) 1 [''a''] (start [(ErrorCode_Error, [C_void_p 0])]) =
     (Inl (Exception ''There was an unknown error: 7''),
      \<lparr>name = ''block_manager_get_iterator'', c_iter_ptr = 0\<rparr>,
      \<lparr>native = [], calls = [(''block_manager_get_iterator_new'',
          [Arg_void_p 1, Arg_char_p_array [Some ''a''], Arg_size_t 1, Byref (C_void_p 0)])]\<rparr>)"
    by (simp add: GetBlockIterator_init_def libexec_def exec_def call_def exec_result_def
        bytes_env_def scripted_def start_def codes f7 c_block_ids_map encode_def)
  show ?thesis
    unfolding init
    using drop_only_a_live_cursor [of "bytes_env scripted"
        "\<lparr>name = ''block_manager_get_iterator'', c_iter_ptr = 7\<rparr>" "start [(ErrorCode_Success, [])]"
        1 "[''a'']" "''t''" "''x''"]
      drop_only_a_live_cursor [of "bytes_env scripted"
        "\<lparr>name = ''block_manager_get_iterator'', c_iter_ptr = 0\<rparr>"
        "\<lparr>native = [], calls = [(''block_manager_get_iterator_new'',
          [Arg_void_p 1, Arg_char_p_array [Some ''a''], Arg_size_t 1, Byref (C_void_p 0)])]\<rparr>"
        1 "[''a'']" "''t''" "''x''"]
    by (simp add: start_def)
qed

end
